theory Spec2Isabelle
  imports Complex_Main "HOL-Library.Sublist"
begin

section \<open>Python values\<close>

text \<open>
  The parsed body of an upstream response is an arbitrary JSON value, as Python's parser
  builds it: \<open>None\<close>, \<open>bool\<close>, \<open>int\<close> (unbounded), \<open>float\<close>, \<open>str\<close>, \<open>list\<close> and \<open>dict\<close>
  with string keys. A dict is an association list in insertion order; the parser leaves
  no duplicate key, and a lookup reads the first entry of a key.
\<close>

datatype pyfloat = Finite rat | Infinite bool | NaN

datatype json =
    JNull
  | JBool bool
  | JInt int
  | JFloat pyfloat
  | JStr string
  | JList "json list"
  | JDict "(string \<times> json) list"

text \<open>
  Exceptions are values. \<open>HTTPException\<close> carries \<open>status_code\<close> and \<open>detail\<close>; the other
  constructors are the built-in exceptions that the handlers' lookups can raise and
  whatever the document store raises; no \<open>except\<close> clause of the handlers catches them.
\<close>

datatype error =
    HTTPException int string
  | AttributeError
  | KeyError string
  | TypeError
  | IndexError
  | StorageError string

subsection \<open>\<open>str\<close> of an integer\<close>

definition digit_char :: "nat \<Rightarrow> char" where
  "digit_char d = ''0123456789'' ! d"

fun digits :: "nat \<Rightarrow> string" where
  "digits n = (if n < 10 then [digit_char n] else digits (n div 10) @ [digit_char (n mod 10)])"

declare digits.simps [simp del]

definition str_int :: "int \<Rightarrow> string" where
  "str_int i = (if i < 0 then CHR ''-'' # digits (nat (- i)) else digits (nat i))"

subsection \<open>Dictionary and sequence operations\<close>

text \<open>\<open>d.get(k, default)\<close>: only a dict has the method.\<close>

fun py_get :: "json \<Rightarrow> string \<Rightarrow> json \<Rightarrow> error + json" where
  "py_get (JDict kvs) k dflt = Inr (case map_of kvs k of None \<Rightarrow> dflt | Some v \<Rightarrow> v)"
| "py_get _ k dflt = Inl AttributeError"

text \<open>\<open>len(v)\<close>: defined on strings, lists and dicts.\<close>

fun py_len :: "json \<Rightarrow> error + int" where
  "py_len (JStr s) = Inr (int (length s))"
| "py_len (JList xs) = Inr (int (length xs))"
| "py_len (JDict kvs) = Inr (int (length (remdups (map fst kvs))))"
| "py_len _ = Inl TypeError"

text \<open>Truth value of \<open>v\<close> in \<open>... if v else ...\<close>.\<close>

fun py_truthy :: "json \<Rightarrow> bool" where
  "py_truthy JNull = False"
| "py_truthy (JBool b) = b"
| "py_truthy (JInt i) = (i \<noteq> 0)"
| "py_truthy (JFloat f) = (f \<noteq> Finite 0)"
| "py_truthy (JStr s) = (s \<noteq> [])"
| "py_truthy (JList xs) = (xs \<noteq> [])"
| "py_truthy (JDict kvs) = (kvs \<noteq> [])"

text \<open>
  \<open>v[0]\<close>: the first element of a list, the first character of a string; on a dict the
  integer \<open>0\<close> is looked up as a key, and the keys are strings.
\<close>

fun py_first :: "json \<Rightarrow> error + json" where
  "py_first (JList []) = Inl IndexError"
| "py_first (JList (x # xs)) = Inr x"
| "py_first (JStr []) = Inl IndexError"
| "py_first (JStr (c # cs)) = Inr (JStr [c])"
| "py_first (JDict kvs) = Inl (KeyError ''0'')"
| "py_first _ = Inl TypeError"

text \<open>\<open>v[k]\<close> for a string key \<open>k\<close>: a lookup that raises on a missing key.\<close>

fun py_getitem :: "json \<Rightarrow> string \<Rightarrow> error + json" where
  "py_getitem (JDict kvs) k = (case map_of kvs k of None \<Rightarrow> Inl (KeyError k) | Some v \<Rightarrow> Inr v)"
| "py_getitem _ k = Inl TypeError"

text \<open>
  \<open>xs[start:stop]\<close>: a negative bound counts from the end, and both bounds are clamped
  to the list.
\<close>

definition py_slice :: "'a list \<Rightarrow> int \<Rightarrow> int \<Rightarrow> 'a list" where
  "py_slice xs start stop =
     (let n = int (length xs);
          lo = (if start < 0 then max (start + n) 0 else min start n);
          hi = (if stop < 0 then max (stop + n) 0 else min stop n)
      in take (nat (hi - lo)) (drop (nat lo) xs))"

section \<open>Upstream client\<close>

definition ERGAST_BASE :: string where
  "ERGAST_BASE = ''https://ergast.com/api/f1''"

record request =
  url :: string
  params :: "(string \<times> int) list option"
  timeout :: nat

text \<open>
  What the network answers to the one GET of a call: the transport fails
  (\<open>RequestException\<close>), or a response arrives with a status code and a body, whose
  parse as JSON is \<open>None\<close> when the body is not valid JSON.
\<close>

record response =
  status_code :: int
  body :: "json option"

datatype http_result = RequestException | Returned response

definition unavailable :: error where
  "unavailable = HTTPException 503 ''External data source unavailable: ergast.com''"

text \<open>
  \<open>fetch_ergast\<close> returns the request it issued together with its outcome. A body that
  does not parse makes \<open>r.json()\<close> raise the library's \<open>JSONDecodeError\<close>, which is a
  \<open>RequestException\<close> and is caught by the same clause as a transport failure.
\<close>

definition fetch_ergast ::
  "http_result \<Rightarrow> string \<Rightarrow> (string \<times> int) list option \<Rightarrow> request \<times> (error + json)" where
  "fetch_ergast net endpoint ps =
     (\<lparr>url = ERGAST_BASE @ ''/'' @ endpoint @ ''.json'', params = ps, timeout = 15\<rparr>,
      case net of
        RequestException \<Rightarrow> Inl unavailable
      | Returned r \<Rightarrow>
          if status_code r \<noteq> 200
          then Inl (HTTPException 502 (''Upstream error '' @ str_int (status_code r)))
          else (case body r of None \<Rightarrow> Inl unavailable | Some j \<Rightarrow> Inr j))"

section \<open>Offline fallback for seasons\<close>

definition season_url :: "int \<Rightarrow> string" where
  "season_url y = ''https://en.wikipedia.org/wiki/'' @ str_int y @ ''_Formula_One_World_Championship''"

definition season_record :: "int \<Rightarrow> json" where
  "season_record y = JDict [(''season'', JStr (str_int y)), (''url'', JStr (season_url y))]"

text \<open>
  The loop \<open>for y in range(start_year, current_year + 1): seasons_list.append(...)\<close>,
  with the loop variable, the exclusive end of the range and the list built so far.
\<close>

function seasons_loop :: "int \<Rightarrow> int \<Rightarrow> json list \<Rightarrow> json list" where
  "seasons_loop y stop seasons_list =
     (if y < stop then seasons_loop (y + 1) stop (seasons_list @ [season_record y])
      else seasons_list)"
  by pat_completeness auto
termination
  by (relation "measure (\<lambda>(y, stop, seasons_list). nat (stop - y))") auto

declare seasons_loop.simps [simp del]

definition seasons_list :: "int \<Rightarrow> json list" where
  "seasons_list current_year = seasons_loop 1950 (current_year + 1) []"

text \<open>\<open>current_year\<close> is the year of the UTC clock at the time of the call.\<close>

definition offline_seasons :: "int \<Rightarrow> int \<Rightarrow> int \<Rightarrow> json" where
  "offline_seasons current_year limit offset =
     (let paged = py_slice (seasons_list current_year) offset (offset + limit)
      in JDict [(''count'', JInt (int (length paged))), (''items'', JList paged),
                (''offline'', JBool True)])"

section \<open>Data endpoints\<close>

text \<open>\<open>data.get("MRData", {}).get(table, {}).get(lst, [])\<close>\<close>

definition envelope :: "json \<Rightarrow> string \<Rightarrow> string \<Rightarrow> error + json" where
  "envelope data table lst =
     (case py_get data ''MRData'' (JDict []) of
        Inl e \<Rightarrow> Inl e
      | Inr mr \<Rightarrow>
          (case py_get mr table (JDict []) of
             Inl e \<Rightarrow> Inl e
           | Inr tb \<Rightarrow> py_get tb lst (JList [])))"

text \<open>
  The \<open>except HTTPException\<close> clause shared by the handlers: status 503 is replaced by
  the fallback response, every other exception is raised again or was never caught.
\<close>

definition on_unavailable :: "json \<Rightarrow> error \<Rightarrow> error + json" where
  "on_unavailable fallback e =
     (case e of
        HTTPException st d \<Rightarrow> if st = 503 then Inr fallback else Inl e
      | _ \<Rightarrow> Inl e)"

definition list_seasons :: "http_result \<Rightarrow> int \<Rightarrow> int \<Rightarrow> int \<Rightarrow> request \<times> (error + json)" where
  "list_seasons net current_year limit offset =
     (case fetch_ergast net ''seasons'' (Some [(''limit'', limit), (''offset'', offset)]) of
        (req, Inl e) \<Rightarrow> (req, on_unavailable (offline_seasons current_year limit offset) e)
      | (req, Inr data) \<Rightarrow>
          (req,
           case envelope data ''SeasonTable'' ''Seasons'' of
             Inl e \<Rightarrow> Inl e
           | Inr seasons \<Rightarrow>
               (case py_len seasons of
                  Inl e \<Rightarrow> Inl e
                | Inr n \<Rightarrow> Inr (JDict [(''count'', JInt n), (''items'', seasons)]))))"

text \<open>
  The query parameters of \<open>GET /api/seasons\<close> are optional: \<open>limit: int = 80\<close>,
  \<open>offset: int = 0\<close>.
\<close>

definition get_api_seasons ::
  "http_result \<Rightarrow> int \<Rightarrow> int option \<Rightarrow> int option \<Rightarrow> request \<times> (error + json)" where
  "get_api_seasons net current_year limit offset =
     list_seasons net current_year
       (case limit of None \<Rightarrow> 80 | Some l \<Rightarrow> l)
       (case offset of None \<Rightarrow> 0 | Some off \<Rightarrow> off)"

text \<open>
  Drivers, constructors and races differ in the endpoint path and in the two keys of
  the envelope; the body they share is written once.
\<close>

definition season_listing ::
  "http_result \<Rightarrow> int \<Rightarrow> string \<Rightarrow> string \<Rightarrow> string \<Rightarrow> request \<times> (error + json)" where
  "season_listing net season endpoint table lst =
     (case fetch_ergast net endpoint None of
        (req, Inl e) \<Rightarrow>
          (req, on_unavailable
                  (JDict [(''season'', JInt season), (''count'', JInt 0), (''items'', JList []),
                          (''offline'', JBool True)]) e)
      | (req, Inr data) \<Rightarrow>
          (req,
           case envelope data table lst of
             Inl e \<Rightarrow> Inl e
           | Inr found \<Rightarrow>
               (case py_len found of
                  Inl e \<Rightarrow> Inl e
                | Inr n \<Rightarrow>
                    Inr (JDict [(''season'', JInt season), (''count'', JInt n),
                                (''items'', found)]))))"

definition list_drivers :: "http_result \<Rightarrow> int \<Rightarrow> request \<times> (error + json)" where
  "list_drivers net season =
     season_listing net season (str_int season @ ''/drivers'') ''DriverTable'' ''Drivers''"

definition list_constructors :: "http_result \<Rightarrow> int \<Rightarrow> request \<times> (error + json)" where
  "list_constructors net season =
     season_listing net season (str_int season @ ''/constructors'')
       ''ConstructorTable'' ''Constructors''"

definition list_races :: "http_result \<Rightarrow> int \<Rightarrow> request \<times> (error + json)" where
  "list_races net season =
     season_listing net season (str_int season @ ''.json'') ''RaceTable'' ''Races''"

text \<open>\<open>races[0]["Results"] if races else []\<close>\<close>

definition first_results :: "json \<Rightarrow> error + json" where
  "first_results races =
     (if py_truthy races
      then (case py_first races of Inl e \<Rightarrow> Inl e | Inr race \<Rightarrow> py_getitem race ''Results'')
      else Inr (JList []))"

definition race_results :: "http_result \<Rightarrow> int \<Rightarrow> int \<Rightarrow> request \<times> (error + json)" where
  "race_results net season round_no =
     (case fetch_ergast net (str_int season @ ''/'' @ str_int round_no @ ''/results'') None of
        (req, Inl e) \<Rightarrow>
          (req, on_unavailable
                  (JDict [(''season'', JInt season), (''round'', JInt round_no),
                          (''count'', JInt 0), (''items'', JList []), (''offline'', JBool True)]) e)
      | (req, Inr data) \<Rightarrow>
          (req,
           case envelope data ''RaceTable'' ''Races'' of
             Inl e \<Rightarrow> Inl e
           | Inr races \<Rightarrow>
               (case first_results races of
                  Inl e \<Rightarrow> Inl e
                | Inr results \<Rightarrow>
                    (case py_len results of
                       Inl e \<Rightarrow> Inl e
                     | Inr n \<Rightarrow>
                         Inr (JDict [(''season'', JInt season), (''round'', JInt round_no),
                                     (''count'', JInt n), (''items'', results)])))))"

text \<open>
  The condition ``a level of the envelope path is missing'': the response is an object
  without the key \<open>MRData\<close>, or \<open>MRData\<close> is an object without the table key, or the table
  is an object without the list key.
\<close>

definition level_missing :: "json \<Rightarrow> string \<Rightarrow> string \<Rightarrow> bool" where
  "level_missing data table lst =
     (case data of
        JDict kvs \<Rightarrow>
          (case map_of kvs ''MRData'' of
             None \<Rightarrow> True
           | Some (JDict mr) \<Rightarrow>
               (case map_of mr table of
                  None \<Rightarrow> True
                | Some (JDict tb) \<Rightarrow> map_of tb lst = None
                | Some _ \<Rightarrow> False)
           | Some _ \<Rightarrow> False)
      | _ \<Rightarrow> False)"

section \<open>Favorites\<close>









section \<open>The request a handler issues\<close>

lemma fst_fetch_ergast:
  "fst (fetch_ergast net endpoint ps) =
     \<lparr>url = ERGAST_BASE @ ''/'' @ endpoint @ ''.json'', params = ps, timeout = 15\<rparr>"
  by (simp add: fetch_ergast_def)

lemma fst_season_listing:
  "fst (season_listing net season endpoint table lst) = fst (fetch_ergast net endpoint None)"
  by (simp add: season_listing_def split: prod.splits sum.splits)

lemma fst_list_seasons:
  "fst (list_seasons net current_year limit offset) =
     fst (fetch_ergast net ''seasons'' (Some [(''limit'', limit), (''offset'', offset)]))"
  by (simp add: list_seasons_def split: prod.splits sum.splits)

lemma fst_race_results:
  "fst (race_results net season round_no) =
     fst (fetch_ergast net (str_int season @ ''/'' @ str_int round_no @ ''/results'') None)"
  by (simp add: race_results_def split: prod.splits sum.splits)

section \<open>The outcome of a handler\<close>

lemma snd_list_seasons:
  "snd (list_seasons net current_year limit offset) =
     (case snd (fetch_ergast net ''seasons'' (Some [(''limit'', limit), (''offset'', offset)])) of
        Inl e \<Rightarrow> on_unavailable (offline_seasons current_year limit offset) e
      | Inr data \<Rightarrow>
          (case envelope data ''SeasonTable'' ''Seasons'' of
             Inl e \<Rightarrow> Inl e
           | Inr seasons \<Rightarrow>
               (case py_len seasons of
                  Inl e \<Rightarrow> Inl e
                | Inr n \<Rightarrow> Inr (JDict [(''count'', JInt n), (''items'', seasons)]))))"
  by (simp add: list_seasons_def split: prod.splits sum.splits)

lemma snd_season_listing:
  "snd (season_listing net season endpoint table lst) =
     (case snd (fetch_ergast net endpoint None) of
        Inl e \<Rightarrow>
          on_unavailable
            (JDict [(''season'', JInt season), (''count'', JInt 0), (''items'', JList []),
                    (''offline'', JBool True)]) e
      | Inr data \<Rightarrow>
          (case envelope data table lst of
             Inl e \<Rightarrow> Inl e
           | Inr found \<Rightarrow>
               (case py_len found of
                  Inl e \<Rightarrow> Inl e
                | Inr n \<Rightarrow>
                    Inr (JDict [(''season'', JInt season), (''count'', JInt n),
                                (''items'', found)]))))"
  by (simp add: season_listing_def split: prod.splits sum.splits)

lemma snd_race_results:
  "snd (race_results net season round_no) =
     (case snd (fetch_ergast net (str_int season @ ''/'' @ str_int round_no @ ''/results'') None) of
        Inl e \<Rightarrow>
          on_unavailable
            (JDict [(''season'', JInt season), (''round'', JInt round_no),
                    (''count'', JInt 0), (''items'', JList []), (''offline'', JBool True)]) e
      | Inr data \<Rightarrow>
          (case envelope data ''RaceTable'' ''Races'' of
             Inl e \<Rightarrow> Inl e
           | Inr races \<Rightarrow>
               (case first_results races of
                  Inl e \<Rightarrow> Inl e
                | Inr results \<Rightarrow>
                    (case py_len results of
                       Inl e \<Rightarrow> Inl e
                     | Inr n \<Rightarrow>
                         Inr (JDict [(''season'', JInt season), (''round'', JInt round_no),
                                     (''count'', JInt n), (''items'', results)])))))"
  by (simp add: race_results_def split: prod.splits sum.splits)

lemma on_unavailable_503 [simp]: "on_unavailable fallback (HTTPException 503 d) = Inr fallback"
  by (simp add: on_unavailable_def)

lemma on_unavailable_502 [simp]: "on_unavailable fallback (HTTPException 502 d) = Inl (HTTPException 502 d)"
  by (simp add: on_unavailable_def)

lemma offline_seasons_offline:
  "py_getitem (offline_seasons current_year limit offset) ''offline'' = Inr (JBool True)"
  by (simp add: offline_seasons_def Let_def)

section \<open>Request URLs\<close>

lemma suffix_append_short: "length a \<le> length b \<Longrightarrow> suffix a (x @ b) = suffix a b"
  by (auto simp: suffix_append)

lemma suffix_json: "suffix ''.json'' (x @ ''.json'')"
  by (rule suffixI) simp

text \<open>
  C8. For every endpoint path \<open>p\<close> the upstream client requests the URL
  \<open>{base}/{p}.json\<close>. The races handler passes \<open>{season}.json\<close> as the path, so its URL
  is \<open>{base}/{season}.json.json\<close> and ends in the double suffix; the URL of each of the
  other four handlers ends in \<open>.json\<close> and not in \<open>.json.json\<close>.
\<close>

theorem fetch_ergast_url:
  "url (fst (fetch_ergast net p ps)) = ERGAST_BASE @ ''/'' @ p @ ''.json'' \<and>
   url (fst (list_races net season)) = ERGAST_BASE @ ''/'' @ str_int season @ ''.json.json'' \<and>
   suffix ''.json.json'' (url (fst (list_races net season))) \<and>
   suffix ''.json'' (url (fst (list_seasons net current_year limit offset))) \<and>
   \<not> suffix ''.json.json'' (url (fst (list_seasons net current_year limit offset))) \<and>
   suffix ''.json'' (url (fst (list_drivers net season))) \<and>
   \<not> suffix ''.json.json'' (url (fst (list_drivers net season))) \<and>
   suffix ''.json'' (url (fst (list_constructors net season))) \<and>
   \<not> suffix ''.json.json'' (url (fst (list_constructors net season))) \<and>
   suffix ''.json'' (url (fst (race_results net season round_no))) \<and>
   \<not> suffix ''.json.json'' (url (fst (race_results net season round_no)))"
proof -
  have drivers: "\<not> suffix ''.json.json'' (x @ ''/drivers.json'')" for x :: string
    by (simp add: suffix_append_short suffix_to_prefix)
  have constructors: "\<not> suffix ''.json.json'' (x @ ''/constructors.json'')" for x :: string
    by (simp add: suffix_append_short suffix_to_prefix)
  have results: "\<not> suffix ''.json.json'' (x @ ''/results.json'')" for x :: string
    by (simp add: suffix_append_short suffix_to_prefix)
  have seasons: "\<not> suffix ''.json.json'' (x @ ''/seasons.json'')" for x :: string
    by (simp add: suffix_append_short suffix_to_prefix)
  show ?thesis
    using suffix_json [of "ERGAST_BASE @ ''/'' @ str_int season @ ''/drivers''"]
      drivers [of "ERGAST_BASE @ ''/'' @ str_int season"]
      suffix_json [of "ERGAST_BASE @ ''/'' @ str_int season @ ''/constructors''"]
      constructors [of "ERGAST_BASE @ ''/'' @ str_int season"]
      suffix_json [of "ERGAST_BASE @ ''/'' @ str_int season @ ''/'' @ str_int round_no @ ''/results''"]
      results [of "ERGAST_BASE @ ''/'' @ str_int season @ ''/'' @ str_int round_no"]
      suffix_json [of "ERGAST_BASE @ ''/seasons''"]
      seasons [of "ERGAST_BASE"]
      suffix_json [of "ERGAST_BASE @ ''/'' @ str_int season @ ''.json''"]
    by (simp add: fst_fetch_ergast fst_season_listing fst_list_seasons fst_race_results
        list_races_def list_drivers_def list_constructors_def suffix_def)
qed

section \<open>Upstream unavailable, upstream error\<close>

text \<open>
  C2. For every limit and offset: when the upstream client raises the 503 error for the
  seasons request, the response of \<open>GET /api/seasons\<close> is the offline generator's
  output for the same limit and offset, and that output carries \<open>offline: true\<close>.
\<close>

theorem list_seasons_unavailable:
  assumes "snd (fetch_ergast net ''seasons'' (Some [(''limit'', limit), (''offset'', offset)]))
             = Inl (HTTPException 503 d)"
  shows "snd (list_seasons net current_year limit offset)
           = Inr (offline_seasons current_year limit offset) \<and>
         py_getitem (offline_seasons current_year limit offset) ''offline'' = Inr (JBool True)"
  using assms by (simp add: snd_list_seasons offline_seasons_offline)

lemma offline_seasons_1951:
  "offline_seasons 1951 80 0 =
     JDict [(''count'', JInt 2),
            (''items'', JList
               [JDict [(''season'', JStr ''1950''),
                       (''url'', JStr ''https://en.wikipedia.org/wiki/1950_Formula_One_World_Championship'')],
                JDict [(''season'', JStr ''1951''),
                       (''url'', JStr ''https://en.wikipedia.org/wiki/1951_Formula_One_World_Championship'')]]),
            (''offline'', JBool True)]"
  by code_simp

theorem list_seasons_unavailable_witness:
  "snd (fetch_ergast RequestException ''seasons'' (Some [(''limit'', 80), (''offset'', 0)]))
     = Inl (HTTPException 503 ''External data source unavailable: ergast.com'') \<and>
   snd (list_seasons RequestException 1951 80 0) =
     Inr (JDict [(''count'', JInt 2),
            (''items'', JList
               [JDict [(''season'', JStr ''1950''),
                       (''url'', JStr ''https://en.wikipedia.org/wiki/1950_Formula_One_World_Championship'')],
                JDict [(''season'', JStr ''1951''),
                       (''url'', JStr ''https://en.wikipedia.org/wiki/1951_Formula_One_World_Championship'')]]),
            (''offline'', JBool True)])"
proof -
  have h: "snd (fetch_ergast RequestException ''seasons'' (Some [(''limit'', 80), (''offset'', 0)]))
     = Inl (HTTPException 503 ''External data source unavailable: ergast.com'')"
    by (simp add: fetch_ergast_def unavailable_def)
  show ?thesis
    using h list_seasons_unavailable [OF h, of 1951] by (simp add: offline_seasons_1951)
qed

text \<open>
  C5. For every endpoint and every upstream status other than 200, the upstream client
  raises the 502 error whose detail embeds the upstream status, and each of the five
  handlers lets it through: none returns a fallback response.
\<close>

theorem upstream_error_502:
  assumes "net = Returned r" and "status_code r \<noteq> 200"
  shows "snd (fetch_ergast net p ps)
           = Inl (HTTPException 502 (''Upstream error '' @ str_int (status_code r))) \<and>
         snd (list_seasons net current_year limit offset)
           = Inl (HTTPException 502 (''Upstream error '' @ str_int (status_code r))) \<and>
         snd (list_drivers net season)
           = Inl (HTTPException 502 (''Upstream error '' @ str_int (status_code r))) \<and>
         snd (list_constructors net season)
           = Inl (HTTPException 502 (''Upstream error '' @ str_int (status_code r))) \<and>
         snd (list_races net season)
           = Inl (HTTPException 502 (''Upstream error '' @ str_int (status_code r))) \<and>
         snd (race_results net season round_no)
           = Inl (HTTPException 502 (''Upstream error '' @ str_int (status_code r)))"
proof -
  have f: "snd (fetch_ergast net e q)
             = Inl (HTTPException 502 (''Upstream error '' @ str_int (status_code r)))" for e q
    using assms by (simp add: fetch_ergast_def)
  show ?thesis
    by (simp add: f snd_list_seasons snd_season_listing snd_race_results
        list_drivers_def list_constructors_def list_races_def)
qed

lemma str_int_404: "str_int 404 = ''404''"
  by code_simp

theorem upstream_error_502_witness:
  "snd (list_seasons (Returned \<lparr>status_code = 404, body = None\<rparr>) 2024 80 0)
     = Inl (HTTPException 502 ''Upstream error 404'') \<and>
   snd (list_drivers (Returned \<lparr>status_code = 404, body = None\<rparr>) 2024)
     = Inl (HTTPException 502 ''Upstream error 404'') \<and>
   snd (list_constructors (Returned \<lparr>status_code = 404, body = None\<rparr>) 2024)
     = Inl (HTTPException 502 ''Upstream error 404'') \<and>
   snd (list_races (Returned \<lparr>status_code = 404, body = None\<rparr>) 2024)
     = Inl (HTTPException 502 ''Upstream error 404'') \<and>
   snd (race_results (Returned \<lparr>status_code = 404, body = None\<rparr>) 2024 1)
     = Inl (HTTPException 502 ''Upstream error 404'')"
  using upstream_error_502 [of "Returned \<lparr>status_code = 404, body = None\<rparr>"
      "\<lparr>status_code = 404, body = None\<rparr>" "''seasons''" None 2024 80 0 2024 1]
  by (simp add: str_int_404)

text \<open>
  C6. For every season (and round): when the upstream client raises the 503 error for
  the request of the drivers handler, its response is exactly
  \<open>{season, count: 0, items: [], offline: true}\<close>; the constructors and races handlers
  answer the same, and the results handler answers it with the \<open>round\<close> field added.
\<close>

theorem listing_unavailable:
  "(snd (fetch_ergast net (str_int season @ ''/drivers'') None) = Inl (HTTPException 503 d) \<longrightarrow>
      snd (list_drivers net season) =
        Inr (JDict [(''season'', JInt season), (''count'', JInt 0), (''items'', JList []),
                    (''offline'', JBool True)])) \<and>
   (snd (fetch_ergast net (str_int season @ ''/constructors'') None) = Inl (HTTPException 503 d) \<longrightarrow>
      snd (list_constructors net season) =
        Inr (JDict [(''season'', JInt season), (''count'', JInt 0), (''items'', JList []),
                    (''offline'', JBool True)])) \<and>
   (snd (fetch_ergast net (str_int season @ ''.json'') None) = Inl (HTTPException 503 d) \<longrightarrow>
      snd (list_races net season) =
        Inr (JDict [(''season'', JInt season), (''count'', JInt 0), (''items'', JList []),
                    (''offline'', JBool True)])) \<and>
   (snd (fetch_ergast net (str_int season @ ''/'' @ str_int round_no @ ''/results'') None)
        = Inl (HTTPException 503 d) \<longrightarrow>
      snd (race_results net season round_no) =
        Inr (JDict [(''season'', JInt season), (''round'', JInt round_no), (''count'', JInt 0),
                    (''items'', JList []), (''offline'', JBool True)]))"
  by (simp add: snd_season_listing snd_race_results list_drivers_def list_constructors_def
      list_races_def)

theorem listing_unavailable_witness:
  "snd (list_drivers RequestException 2024) =
     Inr (JDict [(''season'', JInt 2024), (''count'', JInt 0), (''items'', JList []),
                 (''offline'', JBool True)]) \<and>
   snd (list_constructors RequestException 2024) =
     Inr (JDict [(''season'', JInt 2024), (''count'', JInt 0), (''items'', JList []),
                 (''offline'', JBool True)]) \<and>
   snd (list_races RequestException 2024) =
     Inr (JDict [(''season'', JInt 2024), (''count'', JInt 0), (''items'', JList []),
                 (''offline'', JBool True)]) \<and>
   snd (race_results RequestException 2024 7) =
     Inr (JDict [(''season'', JInt 2024), (''round'', JInt 7), (''count'', JInt 0),
                 (''items'', JList []), (''offline'', JBool True)])"
proof -
  have h: "snd (fetch_ergast RequestException e None)
             = Inl (HTTPException 503 ''External data source unavailable: ergast.com'')" for e
    by (simp add: fetch_ergast_def unavailable_def)
  show ?thesis
    using listing_unavailable [of RequestException 2024
        "''External data source unavailable: ergast.com''" 7]
    by (simp add: h)
qed

section \<open>Race results without races\<close>

text \<open>
  C7. For every season and round: when the upstream call succeeds and the race list
  extracted from the response is empty, the results handler returns
  \<open>{season, round, count: 0, items: []}\<close> and raises nothing.
\<close>

theorem race_results_no_races:
  assumes "snd (fetch_ergast net (str_int season @ ''/'' @ str_int round_no @ ''/results'') None)
             = Inr data"
    and "envelope data ''RaceTable'' ''Races'' = Inr (JList [])"
  shows "snd (race_results net season round_no) =
           Inr (JDict [(''season'', JInt season), (''round'', JInt round_no),
                       (''count'', JInt 0), (''items'', JList [])])"
  using assms by (simp add: snd_race_results first_results_def)

theorem race_results_no_races_witness:
  "snd (race_results
          (Returned \<lparr>status_code = 200,
                     body = Some (JDict [(''MRData'', JDict [(''RaceTable'',
                              JDict [(''season'', JStr ''2024''), (''round'', JStr ''30''),
                                     (''Races'', JList [])])])])\<rparr>) 2024 30) =
     Inr (JDict [(''season'', JInt 2024), (''round'', JInt 30),
                 (''count'', JInt 0), (''items'', JList [])])"
  by (rule race_results_no_races
        [of _ _ _ "JDict [(''MRData'', JDict [(''RaceTable'',
                              JDict [(''season'', JStr ''2024''), (''round'', JStr ''30''),
                                     (''Races'', JList [])])])]"])
     (simp_all add: fetch_ergast_def envelope_def)

section \<open>Default query parameters of the seasons endpoint\<close>

text \<open>
  C10. \<open>GET /api/seasons\<close> without \<open>limit\<close> or \<open>offset\<close> behaves as with \<open>limit=80\<close> and
  \<open>offset=0\<close>: the same request is sent upstream, with these two parameters, and the same
  result comes back; when the upstream is unavailable, the result is the offline
  generator's output for 80 and 0.
\<close>

theorem get_api_seasons_defaults:
  "get_api_seasons net current_year None None
     = get_api_seasons net current_year (Some 80) (Some 0) \<and>
   get_api_seasons net current_year None (Some offset)
     = get_api_seasons net current_year (Some 80) (Some offset) \<and>
   get_api_seasons net current_year (Some limit) None
     = get_api_seasons net current_year (Some limit) (Some 0) \<and>
   params (fst (get_api_seasons net current_year None None))
     = Some [(''limit'', 80), (''offset'', 0)] \<and>
   (snd (fetch_ergast net ''seasons'' (Some [(''limit'', 80), (''offset'', 0)]))
      = Inl (HTTPException 503 d) \<longrightarrow>
    snd (get_api_seasons net current_year None None) = Inr (offline_seasons current_year 80 0))"
  by (simp add: get_api_seasons_def fst_list_seasons fst_fetch_ergast snd_list_seasons)

theorem get_api_seasons_defaults_witness:
  "params (fst (get_api_seasons RequestException 1951 None None))
     = Some [(''limit'', 80), (''offset'', 0)] \<and>
   snd (get_api_seasons RequestException 1951 None None) = Inr (offline_seasons 1951 80 0)"
proof -
  have h: "snd (fetch_ergast RequestException ''seasons'' (Some [(''limit'', 80), (''offset'', 0)]))
     = Inl (HTTPException 503 ''External data source unavailable: ergast.com'')"
    by (simp add: fetch_ergast_def unavailable_def)
  show ?thesis
    using get_api_seasons_defaults [of RequestException 1951 0 80
        "''External data source unavailable: ergast.com''"] h
    by (elim conjE) simp
qed

section \<open>Missing levels of the envelope\<close>

lemma envelope_level_missing:
  assumes "level_missing data table lst"
  shows "envelope data table lst = Inr (JList [])"
proof (cases data)
  case (JDict kvs)
  show ?thesis
  proof (cases "map_of kvs ''MRData''")
    case None
    with JDict show ?thesis by (simp add: envelope_def)
  next
    case (Some mrv)
    show ?thesis
    proof (cases mrv)
      case mr: (JDict mr)
      show ?thesis
      proof (cases "map_of mr table")
        case None
        with JDict Some mr show ?thesis by (simp add: envelope_def)
      next
        case tbv: (Some tbv)
        show ?thesis
        proof (cases tbv)
          case tb: (JDict tb)
          with assms JDict Some mr tbv show ?thesis
            by (simp add: level_missing_def envelope_def)
        qed (use assms JDict Some mr tbv in \<open>simp_all add: level_missing_def\<close>)
      qed
    qed (use assms JDict Some in \<open>simp_all add: level_missing_def\<close>)
  qed
qed (use assms in \<open>simp_all add: level_missing_def\<close>)

text \<open>
  C1, as the code has it. For each of the five data handlers: when the upstream call
  succeeds with a JSON object in which a level of the envelope path is missing (the
  top-level wrapper, the table wrapper inside it, or the list inside the table), the
  handler returns its context fields with \<open>count: 0\<close> and \<open>items: []\<close> and raises nothing.
\<close>

theorem missing_level_empty_items:
  "(snd (fetch_ergast net ''seasons'' (Some [(''limit'', limit), (''offset'', offset)])) = Inr data \<and>
    level_missing data ''SeasonTable'' ''Seasons'' \<longrightarrow>
      snd (list_seasons net current_year limit offset) =
        Inr (JDict [(''count'', JInt 0), (''items'', JList [])])) \<and>
   (snd (fetch_ergast net (str_int season @ ''/drivers'') None) = Inr data \<and>
    level_missing data ''DriverTable'' ''Drivers'' \<longrightarrow>
      snd (list_drivers net season) =
        Inr (JDict [(''season'', JInt season), (''count'', JInt 0), (''items'', JList [])])) \<and>
   (snd (fetch_ergast net (str_int season @ ''/constructors'') None) = Inr data \<and>
    level_missing data ''ConstructorTable'' ''Constructors'' \<longrightarrow>
      snd (list_constructors net season) =
        Inr (JDict [(''season'', JInt season), (''count'', JInt 0), (''items'', JList [])])) \<and>
   (snd (fetch_ergast net (str_int season @ ''.json'') None) = Inr data \<and>
    level_missing data ''RaceTable'' ''Races'' \<longrightarrow>
      snd (list_races net season) =
        Inr (JDict [(''season'', JInt season), (''count'', JInt 0), (''items'', JList [])])) \<and>
   (snd (fetch_ergast net (str_int season @ ''/'' @ str_int round_no @ ''/results'') None) = Inr data \<and>
    level_missing data ''RaceTable'' ''Races'' \<longrightarrow>
      snd (race_results net season round_no) =
        Inr (JDict [(''season'', JInt season), (''round'', JInt round_no), (''count'', JInt 0),
                    (''items'', JList [])]))"
  by (simp add: snd_list_seasons snd_season_listing snd_race_results list_drivers_def
      list_constructors_def list_races_def envelope_level_missing first_results_def)

theorem missing_level_empty_items_witness:
  "snd (list_seasons (Returned \<lparr>status_code = 200, body = Some (JDict [(''MRData'',
          JDict [(''series'', JStr ''f1''), (''total'', JStr ''0'')])])\<rparr>) 2024 80 0) =
     Inr (JDict [(''count'', JInt 0), (''items'', JList [])]) \<and>
   snd (list_drivers (Returned \<lparr>status_code = 200, body = Some (JDict [(''MRData'',
          JDict [(''series'', JStr ''f1''), (''total'', JStr ''0'')])])\<rparr>) 2024) =
     Inr (JDict [(''season'', JInt 2024), (''count'', JInt 0), (''items'', JList [])]) \<and>
   snd (list_constructors (Returned \<lparr>status_code = 200, body = Some (JDict [(''MRData'',
          JDict [(''series'', JStr ''f1''), (''total'', JStr ''0'')])])\<rparr>) 2024) =
     Inr (JDict [(''season'', JInt 2024), (''count'', JInt 0), (''items'', JList [])]) \<and>
   snd (list_races (Returned \<lparr>status_code = 200, body = Some (JDict [(''MRData'',
          JDict [(''series'', JStr ''f1''), (''total'', JStr ''0'')])])\<rparr>) 2024) =
     Inr (JDict [(''season'', JInt 2024), (''count'', JInt 0), (''items'', JList [])]) \<and>
   snd (race_results (Returned \<lparr>status_code = 200, body = Some (JDict [(''MRData'',
          JDict [(''series'', JStr ''f1''), (''total'', JStr ''0'')])])\<rparr>) 2024 3) =
     Inr (JDict [(''season'', JInt 2024), (''round'', JInt 3), (''count'', JInt 0),
                 (''items'', JList [])])"
proof -
  have f: "snd (fetch_ergast (Returned \<lparr>status_code = 200, body = Some d\<rparr>) e q) = Inr d" for d e q
    by (simp add: fetch_ergast_def)
  have m: "level_missing (JDict [(''MRData'',
          JDict [(''series'', JStr ''f1''), (''total'', JStr ''0'')])]) t l" 
    if "t \<noteq> ''series''" "t \<noteq> ''total''" for t l
    using that by (simp add: level_missing_def)
  show ?thesis
    using missing_level_empty_items [of
        "Returned \<lparr>status_code = 200, body = Some (JDict [(''MRData'',
          JDict [(''series'', JStr ''f1''), (''total'', JStr ''0'')])])\<rparr>" 80 0
        "JDict [(''MRData'', JDict [(''series'', JStr ''f1''), (''total'', JStr ''0'')])]"
        2024 2024 3]
    by (simp add: f m)
qed

text \<open>
  The claim C1 also counts the \<open>Results\<close> field of the first race among the levels that may
  be missing. The results handler reads that field with \<open>races[0]["Results"]\<close>: on a
  successful response whose first race has no \<open>Results\<close> field it raises \<open>KeyError\<close>.
  Nor does every successful response go through: the handlers check no types, and a
  wrapper that is present but is not an object (here \<open>"MRData": null\<close>) has no \<open>get\<close>.
\<close>

theorem race_without_results_counterexample:
  "snd (fetch_ergast
          (Returned \<lparr>status_code = 200,
                     body = Some (JDict [(''MRData'', JDict [(''RaceTable'',
                              JDict [(''Races'',
                                JList [JDict [(''raceName'', JStr ''Monaco Grand Prix'')]])])])])\<rparr>)
          ''2024/6/results'' None) =
     Inr (JDict [(''MRData'', JDict [(''RaceTable'',
            JDict [(''Races'', JList [JDict [(''raceName'', JStr ''Monaco Grand Prix'')]])])])]) \<and>
   snd (race_results
          (Returned \<lparr>status_code = 200,
                     body = Some (JDict [(''MRData'', JDict [(''RaceTable'',
                              JDict [(''Races'',
                                JList [JDict [(''raceName'', JStr ''Monaco Grand Prix'')]])])])])\<rparr>)
          2024 6) = Inl (KeyError ''Results'') \<and>
   snd (list_drivers (Returned \<lparr>status_code = 200, body = Some (JDict [(''MRData'', JNull)])\<rparr>)
          2024) = Inl AttributeError"
  by (simp add: snd_race_results snd_season_listing list_drivers_def fetch_ergast_def
      envelope_def first_results_def)

section \<open>Identifiers of listed favorites\<close>






section \<open>The offline seasons generator\<close>

lemma seasons_loop_upto:
  "seasons_loop y stop acc = acc @ map season_record [y..stop - 1]"
proof (induction y stop acc rule: seasons_loop.induct)
  case (1 y stop acc)
  show ?case
  proof (cases "y < stop")
    case True
    then have "[y..stop - 1] = y # [y + 1..stop - 1]"
      by (simp add: upto_rec1)
    with True "1.IH" show ?thesis
      by (simp add: seasons_loop.simps [of y stop acc])
  next
    case False
    then show ?thesis
      by (simp add: seasons_loop.simps [of y stop acc])
  qed
qed

lemma seasons_list_upto: "seasons_list current_year = map season_record [1950..current_year]"
  by (simp add: seasons_list_def seasons_loop_upto)

lemma length_seasons_list: "int (length (seasons_list current_year)) = max 0 (current_year - 1949)"
  by (simp add: seasons_list_upto)

lemma digit_char_inj: "d < 10 \<Longrightarrow> e < 10 \<Longrightarrow> digit_char d = digit_char e \<Longrightarrow> d = e"
proof -
  assume "d < 10" "e < 10" and eq: "digit_char d = digit_char e"
  then have "d \<in> {0, 1, 2, 3, 4, 5, 6, 7, 8, 9}" "e \<in> {0, 1, 2, 3, 4, 5, 6, 7, 8, 9}"
    by auto
  with eq show ?thesis
    by (auto simp: digit_char_def)
qed

lemma digit_char_not_minus: "d < 10 \<Longrightarrow> digit_char d \<noteq> CHR ''-''"
proof -
  assume "d < 10"
  then have "d \<in> {0, 1, 2, 3, 4, 5, 6, 7, 8, 9}"
    by auto
  then show ?thesis
    by (auto simp: digit_char_def)
qed

lemma digits_not_Nil: "digits n \<noteq> []" "[] \<noteq> digits n"
  by (subst digits.simps, simp)+

lemma digits_no_minus: "CHR ''-'' \<notin> set (digits n)"
proof (induction n rule: digits.induct)
  case (1 n)
  show ?case
  proof (cases "n < 10")
    case True
    then show ?thesis
      using digit_char_not_minus [of n] by (subst digits.simps) auto
  next
    case False
    then show ?thesis
      using "1.IH" digit_char_not_minus [of "n mod 10"] by (subst digits.simps) auto
  qed
qed

lemma digits_inj: "digits n = digits m \<Longrightarrow> n = m"
proof (induction n arbitrary: m rule: digits.induct)
  case (1 n)
  show ?case
  proof (cases "n < 10")
    case n: True
    show ?thesis
    proof (cases "m < 10")
      case True
      with n "1.prems" show ?thesis
        by (simp add: digits.simps [of n] digits.simps [of m] digit_char_inj)
    next
      case False
      with n "1.prems" show ?thesis
        by (simp add: digits.simps [of n] digits.simps [of m] digits_not_Nil)
    qed
  next
    case n: False
    show ?thesis
    proof (cases "m < 10")
      case True
      with n "1.prems" show ?thesis
        by (simp add: digits.simps [of n] digits.simps [of m] digits_not_Nil)
    next
      case False
      with n "1.prems" have eq: "digits (n div 10) = digits (m div 10)"
        and d: "digit_char (n mod 10) = digit_char (m mod 10)"
        by (simp_all add: digits.simps [of n] digits.simps [of m])
      from "1.IH" [OF n eq] have "n div 10 = m div 10" .
      moreover from d have "n mod 10 = m mod 10"
        by (intro digit_char_inj) simp_all
      ultimately show ?thesis
        by (metis div_mult_mod_eq)
    qed
  qed
qed

lemma str_int_inj: "str_int i = str_int j \<Longrightarrow> i = j"
proof -
  assume eq: "str_int i = str_int j"
  have hd: "hd (digits n) \<noteq> CHR ''-''" for n
    using digits_no_minus [of n] digits_not_Nil [of n] by (cases "digits n") auto
  show ?thesis
  proof (cases "i < 0")
    case i: True
    show ?thesis
    proof (cases "j < 0")
      case True
      with i eq have "digits (nat (- i)) = digits (nat (- j))"
        by (simp add: str_int_def)
      then have "nat (- i) = nat (- j)" by (rule digits_inj)
      with i True show ?thesis by simp
    next
      case False
      with i eq have "CHR ''-'' # digits (nat (- i)) = digits (nat j)"
        by (simp add: str_int_def)
      then have "hd (digits (nat j)) = CHR ''-''" by (metis list.sel(1))
      with hd show ?thesis by simp
    qed
  next
    case i: False
    show ?thesis
    proof (cases "j < 0")
      case True
      with i eq have "digits (nat i) = CHR ''-'' # digits (nat (- j))"
        by (simp add: str_int_def)
      then have "hd (digits (nat i)) = CHR ''-''" by simp
      with hd show ?thesis by simp
    next
      case False
      with i eq have "digits (nat i) = digits (nat j)"
        by (simp add: str_int_def)
      then have "nat i = nat j" by (rule digits_inj)
      with i False show ?thesis by simp
    qed
  qed
qed

lemma filter_eq_distinct: "distinct xs \<Longrightarrow> y \<in> set xs \<Longrightarrow> filter (\<lambda>z. z = y) xs = [y]"
  by (induction xs) (auto simp: filter_empty_conv)

lemma py_slice_nonneg:
  "0 \<le> start \<Longrightarrow> 0 \<le> n \<Longrightarrow> py_slice xs start (start + n) = take (nat n) (drop (nat start) xs)"
  by (auto simp: py_slice_def Let_def min_def max_def)

lemma season_of_record: "py_getitem (season_record y) ''season'' = Inr (JStr (str_int y))"
  by (simp add: season_record_def)

text \<open>
  C4. For every year from 1950 through the current year, the full list built by the
  offline generator holds exactly one record whose \<open>season\<close> is \<open>str(year)\<close>: the record
  of that year, whose \<open>url\<close> is the Wikipedia address of that year's championship.
\<close>

theorem seasons_list_one_record_per_year:
  assumes "1950 \<le> y" and "y \<le> current_year"
  shows "filter (\<lambda>r. py_getitem r ''season'' = Inr (JStr (str_int y))) (seasons_list current_year)
           = [season_record y] \<and>
         py_getitem (season_record y) ''url''
           = Inr (JStr (''https://en.wikipedia.org/wiki/'' @ str_int y
                        @ ''_Formula_One_World_Championship''))"
proof
  have "(\<lambda>r. py_getitem r ''season'' = Inr (JStr (str_int y))) \<circ> season_record = (\<lambda>z. z = y)"
    by (auto simp: fun_eq_iff season_of_record dest: str_int_inj)
  moreover have "filter (\<lambda>z. z = y) [1950..current_year] = [y]"
    using assms by (intro filter_eq_distinct) simp_all
  ultimately show "filter (\<lambda>r. py_getitem r ''season'' = Inr (JStr (str_int y)))
                     (seasons_list current_year) = [season_record y]"
    by (simp add: seasons_list_upto filter_map)
  show "py_getitem (season_record y) ''url''
           = Inr (JStr (''https://en.wikipedia.org/wiki/'' @ str_int y
                        @ ''_Formula_One_World_Championship''))"
    by (simp add: season_record_def season_url_def)
qed

lemma str_int_2024: "str_int 2024 = ''2024''"
  by code_simp

theorem seasons_list_one_record_per_year_witness:
  "filter (\<lambda>r. py_getitem r ''season'' = Inr (JStr ''2024'')) (seasons_list 2026)
     = [JDict [(''season'', JStr ''2024''),
               (''url'', JStr ''https://en.wikipedia.org/wiki/2024_Formula_One_World_Championship'')]] \<and>
   py_getitem (season_record 2024) ''url''
     = Inr (JStr ''https://en.wikipedia.org/wiki/2024_Formula_One_World_Championship'')"
  using seasons_list_one_record_per_year [of 2024 2026]
  by (simp add: str_int_2024 season_record_def season_url_def)

lemma paged_length:
  "0 \<le> limit \<Longrightarrow> 0 \<le> offset \<Longrightarrow>
     int (min (n - nat offset) (nat limit)) = max 0 (min limit (int n - offset))"
  by arith

text \<open>
  C3, as the code has it. For every limit and offset that are not negative, the offline
  generator returns exactly \<open>max(0, min(limit, totalYears - offset))\<close> items, where
  \<open>totalYears = max(0, current_year - 1949)\<close> is the number of years from 1950 through the
  current year, and reports that number as \<open>count\<close>; when \<open>offset < totalYears\<close> and
  \<open>limit > 0\<close> the first item is the record of the year \<open>1950 + offset\<close>; when
  \<open>offset \<ge> totalYears\<close> there are no items.
\<close>

theorem offline_seasons_paging:
  assumes "0 \<le> limit" and "0 \<le> offset"
  shows "\<exists>paged.
           offline_seasons current_year limit offset =
             JDict [(''count'', JInt (max 0 (min limit (max 0 (current_year - 1949) - offset)))),
                    (''items'', JList paged), (''offline'', JBool True)] \<and>
           int (length paged) = max 0 (min limit (max 0 (current_year - 1949) - offset)) \<and>
           (offset < max 0 (current_year - 1949) \<and> 0 < limit \<longrightarrow>
              (\<exists>rest. paged = season_record (1950 + offset) # rest) \<and>
              py_getitem (season_record (1950 + offset)) ''season''
                = Inr (JStr (str_int (1950 + offset)))) \<and>
           (max 0 (current_year - 1949) \<le> offset \<longrightarrow> paged = [])"
proof -
  let ?all = "seasons_list current_year"
  let ?paged = "take (nat limit) (drop (nat offset) ?all)"
  have off: "offline_seasons current_year limit offset =
               JDict [(''count'', JInt (int (length ?paged))), (''items'', JList ?paged),
                      (''offline'', JBool True)]"
    using assms by (simp add: offline_seasons_def py_slice_nonneg)
  have len: "int (length ?paged) = max 0 (min limit (max 0 (current_year - 1949) - offset))"
    using assms paged_length [of limit offset "length ?all"]
    by (simp add: length_seasons_list)
  have first: "\<exists>rest. ?paged = season_record (1950 + offset) # rest"
    if "offset < max 0 (current_year - 1949)" "0 < limit"
  proof -
    from that assms have k: "nat offset < length ?all"
      using length_seasons_list [of current_year] by linarith
    then have "drop (nat offset) ?all = ?all ! nat offset # drop (Suc (nat offset)) ?all"
      by (simp add: Cons_nth_drop_Suc)
    moreover from k that assms have "?all ! nat offset = season_record (1950 + offset)"
      by (simp add: seasons_list_upto)
    moreover from that obtain n where "nat limit = Suc n"
      by (cases "nat limit") auto
    ultimately show ?thesis
      by simp
  qed
  have none: "?paged = []" if "max 0 (current_year - 1949) \<le> offset"
    using that assms length_seasons_list [of current_year] by simp
  show ?thesis
    using off len first none by (intro exI [of _ ?paged]) (simp add: season_of_record)
qed

theorem offline_seasons_paging_witness:
  "\<exists>paged. offline_seasons 2026 3 74 =
             JDict [(''count'', JInt 3), (''items'', JList paged), (''offline'', JBool True)] \<and>
           int (length paged) = 3 \<and>
           (\<exists>rest. paged = season_record 2024 # rest) \<and>
           py_getitem (season_record 2024) ''season'' = Inr (JStr ''2024'')"
  using offline_seasons_paging [of 3 74 2026]
  by (simp add: str_int_2024)

lemma str_int_2026: "str_int 2026 = ''2026''"
  by code_simp

text \<open>
  The claim C3 is stated for every integer. The slice \<open>seasons_list[offset: offset + limit]\<close>
  counts a negative bound from the end of the list: with 77 seasons (1950 to 2026),
  \<open>offset = -1\<close> and \<open>limit = 80\<close> give the single last season, where the formula of the
  claim gives 78 items.
\<close>

theorem offline_seasons_negative_offset_counterexample:
  "offline_seasons 2026 80 (- 1) =
     JDict [(''count'', JInt 1),
            (''items'', JList [JDict [(''season'', JStr ''2026''),
               (''url'', JStr ''https://en.wikipedia.org/wiki/2026_Formula_One_World_Championship'')]]),
            (''offline'', JBool True)] \<and>
   max 0 (min 80 (max 0 (2026 - 1949) - (- 1))) = (78::int)"
proof -
  let ?all = "seasons_list 2026"
  have len: "length ?all = 77"
    using length_seasons_list [of 2026] by simp
  have "py_slice ?all (- 1) (- 1 + 80) = take 1 (drop 76 ?all)"
    by (simp add: py_slice_def len)
  also have "drop 76 ?all = ?all ! 76 # drop (Suc 76) ?all"
    using len by (intro Cons_nth_drop_Suc [symmetric]) simp
  also have "?all ! 76 = season_record 2026"
    by (simp add: seasons_list_upto)
  finally have "py_slice ?all (- 1) (- 1 + 80) = [season_record 2026]"
    by simp
  then show ?thesis
    by (simp add: offline_seasons_def season_record_def season_url_def str_int_2026)
qed

end
